theory Spec2Isabelle
  imports Main
begin

section \<open>The document store\<close>

text \<open>
  \<^verbatim>\<open>src/authFlow.ts\<close> keeps one profile document per user in Firestore and reaches it
  through \<^verbatim>\<open>doc\<close>, \<^verbatim>\<open>getDoc\<close>, \<^verbatim>\<open>setDoc\<close>, \<^verbatim>\<open>updateDoc\<close> and \<^verbatim>\<open>serverTimestamp\<close>.
  A stored document is dynamically typed (\<^verbatim>\<open>snapshot.data() as AppUserProfile\<close> is an
  unchecked cast, and \<^verbatim>\<open>handleLogin\<close> has a \<^verbatim>\<open>default\<close> branch for a status outside the
  enumeration), so a document is a map from field names to field values and not a
  record of typed fields. The JavaScript value \<^verbatim>\<open>undefined\<close> is not a Firestore field value:
  a key of an object is present in the map exactly when it carries one of the values below.

  \<^verbatim>\<open>serverTimestamp()\<close> returns a sentinel that the store replaces by the server's time
  when the write is committed; that time is the parameter \<open>now\<close> of every write.
  Failures of the network or of the store itself are outside the model. The failures
  that are modelled are \<^verbatim>\<open>updateDoc\<close> on a document that does not exist and \<^verbatim>\<open>doc\<close> on
  arguments that do not name a document; both reject the promise of the calling function,
  which is the value \<open>Inl\<close> of that error.
\<close>

datatype fvalue =
    Null
  | Str string
  | Bool bool
  | Num int
  | Timestamp nat
  | ServerTimestamp

type_synonym document = "string \<rightharpoonup> fvalue"

text \<open>
  A document reference is the list of the segments of the document's path, so that
  \<^verbatim>\<open>users/u1\<close> is \<open>[''users'', ''u1'']\<close>.
\<close>

type_synonym docref = "string list"

type_synonym Firestore = "docref \<rightharpoonup> document"

datatype error = NotFound | InvalidArgument

text \<open>
  \<^verbatim>\<open>doc(db, collectionPath, docId)\<close> of the Firestore client: it rejects an empty
  \<^verbatim>\<open>collectionPath\<close> and any argument that contains \<^verbatim>\<open>//\<close>, splits both arguments at
  \<^verbatim>\<open>/\<close> dropping the empty pieces (so leading and trailing slashes do not count, and
  \<^verbatim>\<open>u1/\<close> and \<^verbatim>\<open>u1\<close> name one document), and rejects a path whose number of segments is
  odd, since such a path names a collection. A path with no segment at all names no
  document either. The library is not part of the repository; this is its contract as the
  operations below rely on it.
\<close>

fun segmentsFrom :: "string \<Rightarrow> string \<Rightarrow> string list" where
  "segmentsFrom acc [] = [rev acc]"
| "segmentsFrom acc (c # cs) =
     (if c = CHR ''/'' then rev acc # segmentsFrom [] cs else segmentsFrom (c # acc) cs)"

definition pathSegments :: "string \<Rightarrow> string list" where
  "pathSegments p = filter (\<lambda>s. s \<noteq> []) (segmentsFrom [] p)"

fun hasDoubleSlash :: "string \<Rightarrow> bool" where
  "hasDoubleSlash (a # b # cs) =
     ((a = CHR ''/'' \<and> b = CHR ''/'') \<or> hasDoubleSlash (b # cs))"
| "hasDoubleSlash cs = False"

definition doc :: "string \<Rightarrow> string \<Rightarrow> error + docref" where
  "doc collectionPath docId =
     (if collectionPath = [] then Inl InvalidArgument
      else if hasDoubleSlash collectionPath \<or> hasDoubleSlash docId then Inl InvalidArgument
      else
        (let segments = pathSegments collectionPath @ pathSegments docId
         in if segments \<noteq> [] \<and> even (length segments) then Inr segments
            else Inl InvalidArgument))"

fun resolveValue :: "nat \<Rightarrow> fvalue \<Rightarrow> fvalue" where
  "resolveValue now ServerTimestamp = Timestamp now"
| "resolveValue now v = v"

definition resolveFields :: "nat \<Rightarrow> document \<Rightarrow> document" where
  "resolveFields now d = (\<lambda>k. map_option (resolveValue now) (d k))"

definition getDoc :: "Firestore \<Rightarrow> docref \<Rightarrow> document option" where
  "getDoc fs r = fs r"

definition setDoc :: "nat \<Rightarrow> Firestore \<Rightarrow> docref \<Rightarrow> document \<Rightarrow> Firestore" where
  "setDoc now fs r d = fs(r \<mapsto> resolveFields now d)"

definition updateDoc :: "nat \<Rightarrow> Firestore \<Rightarrow> docref \<Rightarrow> document \<Rightarrow> error + Firestore" where
  "updateDoc now fs r patch =
     (case fs r of
        None \<Rightarrow> Inl NotFound
      | Some d \<Rightarrow> Inr (fs(r \<mapsto> d ++ resolveFields now patch)))"

text \<open>Reading one field of one stored document; \<open>None\<close> when either is missing.\<close>

definition fieldOf :: "Firestore \<Rightarrow> docref \<Rightarrow> string \<Rightarrow> fvalue option" where
  "fieldOf fs r k = (case fs r of None \<Rightarrow> None | Some d \<Rightarrow> d k)"

text \<open>
  JavaScript truthiness of a field read from a document (\<^verbatim>\<open>if (profile.isAdmin)\<close>):
  a missing field, \<^verbatim>\<open>null\<close>, \<^verbatim>\<open>false\<close>, \<^verbatim>\<open>0\<close> and the empty string are falsy, every
  object is truthy.
\<close>

fun truthy :: "fvalue option \<Rightarrow> bool" where
  "truthy None = False"
| "truthy (Some Null) = False"
| "truthy (Some (Str s)) = (s \<noteq> [])"
| "truthy (Some (Bool b)) = b"
| "truthy (Some (Num n)) = (n \<noteq> 0)"
| "truthy (Some (Timestamp t)) = True"
| "truthy (Some ServerTimestamp) = True"

text \<open>A parameter with a default value: the default stands in for an omitted argument.\<close>

definition defaulted :: "'a \<Rightarrow> 'a option \<Rightarrow> 'a" where
  "defaulted dflt arg = (case arg of None \<Rightarrow> dflt | Some a \<Rightarrow> a)"

section \<open>Types of the auth flow\<close>

record FirebaseUser =
  uid :: string
  email :: "string option"
  displayName :: "string option"

datatype destination = Welcome | Dashboard | Admin

datatype LoginDecision =
    Redirect destination
  | Error string

record HandleLoginOptions =
  db :: Firestore
  usersCollectionPath :: "string option"

definition DEFAULT_USERS_COLLECTION :: string where
  "DEFAULT_USERS_COLLECTION = ''users''"

text \<open>A field of type \<^verbatim>\<open>string | null\<close> as a field value.\<close>

definition nullable :: "string option \<Rightarrow> fvalue" where
  "nullable s = (case s of None \<Rightarrow> Null | Some x \<Rightarrow> Str x)"

section \<open>The operations\<close>

definition getUserProfile ::
  "Firestore \<Rightarrow> string \<Rightarrow> string \<Rightarrow> error + document option" where
  "getUserProfile fs path userId =
     (case doc path userId of
        Inl e \<Rightarrow> Inl e
      | Inr userRef \<Rightarrow>
          (case getDoc fs userRef of
             None \<Rightarrow> Inr None
           | Some snapshot \<Rightarrow> Inr (Some snapshot)))"

text \<open>
  \<^verbatim>\<open>bootstrapNewUser\<close> returns the profile object it wrote (still holding the timestamp
  sentinels) together with the store after \<^verbatim>\<open>setDoc\<close>.
\<close>

definition bootstrapNewUser ::
  "nat \<Rightarrow> Firestore \<Rightarrow> string \<Rightarrow> FirebaseUser \<Rightarrow> error + document \<times> Firestore" where
  "bootstrapNewUser now fs path user =
     (case doc path (uid user) of
        Inl e \<Rightarrow> Inl e
      | Inr userRef \<Rightarrow>
          (let profile = [''uid'' \<mapsto> Str (uid user),
                          ''email'' \<mapsto> nullable (email user),
                          ''displayName'' \<mapsto> nullable (displayName user),
                          ''designation'' \<mapsto> Null,
                          ''isAdmin'' \<mapsto> Bool False,
                          ''onboardingStatus'' \<mapsto> Str ''pending_profile'',
                          ''createdAt'' \<mapsto> ServerTimestamp,
                          ''updatedAt'' \<mapsto> ServerTimestamp]
           in Inr (profile, setDoc now fs userRef profile)))"

text \<open>
  The object literal of \<^verbatim>\<open>completeWelcomeStep\<close> spreads \<^verbatim>\<open>additionalData\<close> last, so a key of
  \<^verbatim>\<open>additionalData\<close> wins over the three keys written before it: \<open>m ++ n\<close> prefers \<open>n\<close>.
  An omitted \<^verbatim>\<open>additionalData\<close> is the empty object.
\<close>

definition completeWelcomeStep ::
  "nat \<Rightarrow> Firestore \<Rightarrow> string \<Rightarrow> string \<Rightarrow> string \<Rightarrow> document option \<Rightarrow> error + Firestore" where
  "completeWelcomeStep now fs path userId designation additionalData =
     (case doc path userId of
        Inl e \<Rightarrow> Inl e
      | Inr userRef \<Rightarrow>
          updateDoc now fs userRef
            ([''designation'' \<mapsto> Str designation,
              ''onboardingStatus'' \<mapsto> Str ''pending_admin_approval'',
              ''updatedAt'' \<mapsto> ServerTimestamp]
             ++ defaulted Map.empty additionalData))"

definition approveUser :: "nat \<Rightarrow> Firestore \<Rightarrow> string \<Rightarrow> string \<Rightarrow> error + Firestore" where
  "approveUser now fs path userId =
     (case doc path userId of
        Inl e \<Rightarrow> Inl e
      | Inr userRef \<Rightarrow>
          updateDoc now fs userRef
            [''onboardingStatus'' \<mapsto> Str ''active'',
             ''updatedAt'' \<mapsto> ServerTimestamp])"

text \<open>
  \<^verbatim>\<open>handleLogin\<close> returns its decision and the store it leaves behind, or the error that
  rejects it. The guard \<^verbatim>\<open>!user?.uid\<close> holds for a \<^verbatim>\<open>null\<close> or \<^verbatim>\<open>undefined\<close> user
  (\<open>None\<close>) and for an empty uid.
\<close>

definition handleLogin ::
  "nat \<Rightarrow> FirebaseUser option \<Rightarrow> HandleLoginOptions \<Rightarrow> error + LoginDecision \<times> Firestore"
  where
  "handleLogin now user opts =
     (let fs = db opts;
          path = defaulted DEFAULT_USERS_COLLECTION (usersCollectionPath opts)
      in case user of
           None \<Rightarrow> Inr (Error ''Missing Firebase user data.'', fs)
         | Some u \<Rightarrow>
             if uid u = [] then Inr (Error ''Missing Firebase user data.'', fs)
             else
               (case getUserProfile fs path (uid u) of
                  Inl e \<Rightarrow> Inl e
                | Inr None \<Rightarrow>
                    (case bootstrapNewUser now fs path u of
                       Inl e \<Rightarrow> Inl e
                     | Inr (profile, fs') \<Rightarrow> Inr (Redirect Welcome, fs'))
                | Inr (Some profile) \<Rightarrow>
                    if truthy (profile ''isAdmin'') then Inr (Redirect Admin, fs)
                    else if profile ''onboardingStatus'' = Some (Str ''pending_profile'')
                      then Inr (Redirect Welcome, fs)
                    else if profile ''onboardingStatus'' = Some (Str ''pending_admin_approval'')
                      then Inr (Error ''Awaiting admin approval.'', fs)
                    else if profile ''onboardingStatus'' = Some (Str ''active'')
                      then Inr (Redirect Dashboard, fs)
                    else Inr (Error ''Invalid onboarding status.'', fs)))"

section \<open>Specification vocabulary\<close>

text \<open>
  The result of a write, read back: the field \<open>k\<close> of document \<open>r\<close> in the store a
  successful write returns, and \<open>None\<close> when the write failed.
\<close>

definition fieldAfter :: "error + Firestore \<Rightarrow> docref \<Rightarrow> string \<Rightarrow> fvalue option" where
  "fieldAfter res r k = (case res of Inl e \<Rightarrow> None | Inr fs' \<Rightarrow> fieldOf fs' r k)"

text \<open>
  The declared type of \<^verbatim>\<open>additionalData\<close> is
  \<^verbatim>\<open>Partial<Omit<AppUserProfile, 'uid' | 'isAdmin' | 'onboardingStatus'>>\<close>: the three
  omitted keys are absent, and \<^verbatim>\<open>email\<close>, \<^verbatim>\<open>displayName\<close> and \<^verbatim>\<open>designation\<close>, when
  present, are a string or \<^verbatim>\<open>null\<close> (\<^verbatim>\<open>createdAt\<close> and \<^verbatim>\<open>updatedAt\<close> are \<^verbatim>\<open>unknown\<close>).
  The type is checked by the compiler only; the function body does not inspect the keys.
\<close>

fun nullableString :: "fvalue option \<Rightarrow> bool" where
  "nullableString None = True"
| "nullableString (Some Null) = True"
| "nullableString (Some (Str s)) = True"
| "nullableString (Some v) = False"

definition omitsProtectedKeys :: "document \<Rightarrow> bool" where
  "omitsProtectedKeys ad \<longleftrightarrow>
     ad ''uid'' = None \<and> ad ''isAdmin'' = None \<and> ad ''onboardingStatus'' = None"

definition additionalDataTyped :: "document \<Rightarrow> bool" where
  "additionalDataTyped ad \<longleftrightarrow>
     omitsProtectedKeys ad
     \<and> nullableString (ad ''email'') \<and> nullableString (ad ''displayName'')
     \<and> nullableString (ad ''designation'')"

text \<open>
  The position of a status value in the lifecycle
  \<open>pending_profile < pending_admin_approval < active\<close>; \<open>None\<close> for any other value.
\<close>

definition statusRank :: "fvalue option \<Rightarrow> nat option" where
  "statusRank st =
     (if st = Some (Str ''pending_profile'') then Some 0
      else if st = Some (Str ''pending_admin_approval'') then Some 1
      else if st = Some (Str ''active'') then Some 2
      else None)"

text \<open>
  The calls a client can make, and the store each leaves. A call that is rejected
  (\<^verbatim>\<open>doc\<close> on an invalid path, \<^verbatim>\<open>updateDoc\<close> on a missing document) leaves the store as
  it was.
\<close>

datatype operation =
    Login nat "FirebaseUser option" "string option"
  | Complete nat string string string "document option"
  | Approve nat string string

fun perform :: "operation \<Rightarrow> Firestore \<Rightarrow> Firestore" where
  "perform (Login now user path) fs =
     (case handleLogin now user \<lparr>db = fs, usersCollectionPath = path\<rparr> of
        Inl e \<Rightarrow> fs
      | Inr (decision, fs') \<Rightarrow> fs')"
| "perform (Complete now path userId designation additionalData) fs =
     (case completeWelcomeStep now fs path userId designation additionalData of
        Inl e \<Rightarrow> fs
      | Inr fs' \<Rightarrow> fs')"
| "perform (Approve now path userId) fs =
     (case approveUser now fs path userId of
        Inl e \<Rightarrow> fs
      | Inr fs' \<Rightarrow> fs')"

fun wellTyped :: "operation \<Rightarrow> bool" where
  "wellTyped (Complete now path userId designation additionalData) =
     additionalDataTyped (defaulted Map.empty additionalData)"
| "wellTyped op = True"

text \<open>The stores reachable from the empty store by well-typed calls.\<close>

inductive reachable :: "Firestore \<Rightarrow> bool" where
  init: "reachable Map.empty"
| step: "reachable fs \<Longrightarrow> wellTyped op \<Longrightarrow> reachable (perform op fs)"

fun completesOn :: "operation \<Rightarrow> docref \<Rightarrow> bool" where
  "completesOn (Complete now path userId designation additionalData) r =
     (doc path userId = Inr r)"
| "completesOn op r = False"

fun approvesOn :: "operation \<Rightarrow> docref \<Rightarrow> bool" where
  "approvesOn (Approve now path userId) r = (doc path userId = Inr r)"
| "approvesOn op r = False"

text \<open>The invariant "designation is null only while the status is \<open>pending_profile\<close>".\<close>

definition designationInv :: "document \<Rightarrow> bool" where
  "designationInv d \<longleftrightarrow>
     (d ''designation'' = Some Null \<longrightarrow> d ''onboardingStatus'' = Some (Str ''pending_profile''))"

definition storeInv :: "Firestore \<Rightarrow> bool" where
  "storeInv fs \<longleftrightarrow> (\<forall>r d. fs r = Some d \<longrightarrow> designationInv d)"

text \<open>
  The calls that cannot leave a null designation behind a status other than
  \<open>pending_profile\<close>: every login, a \<^verbatim>\<open>completeWelcomeStep\<close> whose \<^verbatim>\<open>additionalData\<close> does
  not itself carry \<^verbatim>\<open>designation: null\<close>, and an \<^verbatim>\<open>approveUser\<close> of a record whose
  designation is not null.
\<close>

fun keepsDesignation :: "operation \<Rightarrow> Firestore \<Rightarrow> bool" where
  "keepsDesignation (Login now user path) fs = True"
| "keepsDesignation (Complete now path userId designation additionalData) fs =
     (defaulted Map.empty additionalData ''designation'' \<noteq> Some Null)"
| "keepsDesignation (Approve now path userId) fs =
     (case doc path userId of
        Inl e \<Rightarrow> True
      | Inr r \<Rightarrow> fieldOf fs r ''designation'' \<noteq> Some Null)"

section \<open>Example data\<close>

text \<open>
  A first login of one user, the welcome step and the approval, in this order, on the
  default collection; and a store holding a single profile with a chosen admin flag and
  status.
\<close>

definition exampleUser :: FirebaseUser where
  "exampleUser = \<lparr>uid = ''u1'', email = Some ''ada@example.org'', displayName = None\<rparr>"

definition afterLogin :: Firestore where
  "afterLogin = perform (Login 1 (Some exampleUser) None) Map.empty"

definition afterWelcome :: Firestore where
  "afterWelcome = perform (Complete 2 ''users'' ''u1'' ''engineer'' None) afterLogin"

definition afterApproval :: Firestore where
  "afterApproval = perform (Approve 3 ''users'' ''u1'') afterWelcome"

definition secondUser :: FirebaseUser where
  "secondUser = \<lparr>uid = ''u2'', email = None, displayName = Some ''Bo''\<rparr>"

definition storedProfile :: "bool \<Rightarrow> string \<Rightarrow> Firestore" where
  "storedProfile admin status =
     [[''users'', ''u2''] \<mapsto>
        [''uid'' \<mapsto> Str ''u2'',
         ''email'' \<mapsto> Null,
         ''displayName'' \<mapsto> Str ''Bo'',
         ''designation'' \<mapsto> Null,
         ''isAdmin'' \<mapsto> Bool admin,
         ''onboardingStatus'' \<mapsto> Str status,
         ''createdAt'' \<mapsto> Timestamp 0,
         ''updatedAt'' \<mapsto> Timestamp 0]]"

lemmas run_defs = afterApproval_def afterWelcome_def afterLogin_def exampleUser_def
  handleLogin_def getUserProfile_def getDoc_def bootstrapNewUser_def setDoc_def
  completeWelcomeStep_def approveUser_def updateDoc_def doc_def pathSegments_def defaulted_def
  DEFAULT_USERS_COLLECTION_def fieldOf_def fieldAfter_def Let_def nullable_def
  statusRank_def additionalDataTyped_def omitsProtectedKeys_def map_add_def

section \<open>Facts about the store and the writes\<close>

lemma resolveFields_apply [simp]:
  "resolveFields now d k = map_option (resolveValue now) (d k)"
  by (simp add: resolveFields_def)

lemma resolveValue_eq_Null [simp]: "resolveValue now v = Null \<longleftrightarrow> v = Null"
  by (cases v) simp_all

lemma doc_users_u1: "doc ''users'' ''u1'' = Inr [''users'', ''u1'']"
  by (simp add: doc_def pathSegments_def)

lemma doc_users_u2: "doc ''users'' ''u2'' = Inr [''users'', ''u2'']"
  by (simp add: doc_def pathSegments_def)

text \<open>Trailing slashes do not count; an odd path, an empty collection and \<^verbatim>\<open>//\<close> are rejected.\<close>

lemma doc_examples:
  "doc ''users'' ''u1/'' = Inr [''users'', ''u1'']"
  "doc ''users'' ''a/b'' = Inl InvalidArgument"
  "doc ''orgs/acme/users'' ''u1'' = Inr [''orgs'', ''acme'', ''users'', ''u1'']"
  "doc [] ''u1'' = Inl InvalidArgument"
  "doc ''users'' ''a//b'' = Inl InvalidArgument"
  by (simp_all add: doc_def pathSegments_def)

lemma updateDoc_existing:
  "fs r = Some d \<Longrightarrow> updateDoc now fs r p = Inr (fs(r \<mapsto> d ++ resolveFields now p))"
  by (simp add: updateDoc_def)

lemma updateDoc_missing: "fs r = None \<Longrightarrow> updateDoc now fs r p = Inl NotFound"
  by (simp add: updateDoc_def)

lemma completeWelcomeStep_existing:
  assumes "doc path userId = Inr r" and "fs r = Some d"
  shows "completeWelcomeStep now fs path userId designation additionalData =
           Inr (fs(r \<mapsto>
                  d ++ resolveFields now
                         ([''designation'' \<mapsto> Str designation,
                           ''onboardingStatus'' \<mapsto> Str ''pending_admin_approval'',
                           ''updatedAt'' \<mapsto> ServerTimestamp]
                          ++ defaulted Map.empty additionalData)))"
  using assms by (simp add: completeWelcomeStep_def updateDoc_existing)

lemma approveUser_existing:
  assumes "doc path userId = Inr r" and "fs r = Some d"
  shows "approveUser now fs path userId =
           Inr (fs(r \<mapsto>
                  d ++ resolveFields now
                         [''onboardingStatus'' \<mapsto> Str ''active'',
                          ''updatedAt'' \<mapsto> ServerTimestamp]))"
  using assms by (simp add: approveUser_def updateDoc_existing)

text \<open>The profile \<^verbatim>\<open>bootstrapNewUser\<close> writes, as the store holds it after the write.\<close>

lemma bootstrap_profile_stored:
  "resolveFields now
     [''uid'' \<mapsto> Str (uid u),
      ''email'' \<mapsto> nullable (email u),
      ''displayName'' \<mapsto> nullable (displayName u),
      ''designation'' \<mapsto> Null,
      ''isAdmin'' \<mapsto> Bool False,
      ''onboardingStatus'' \<mapsto> Str ''pending_profile'',
      ''createdAt'' \<mapsto> ServerTimestamp,
      ''updatedAt'' \<mapsto> ServerTimestamp]
   = [''uid'' \<mapsto> Str (uid u),
      ''email'' \<mapsto> nullable (email u),
      ''displayName'' \<mapsto> nullable (displayName u),
      ''designation'' \<mapsto> Null,
      ''isAdmin'' \<mapsto> Bool False,
      ''onboardingStatus'' \<mapsto> Str ''pending_profile'',
      ''createdAt'' \<mapsto> Timestamp now,
      ''updatedAt'' \<mapsto> Timestamp now]"
  by (rule ext) (simp add: nullable_def split: option.splits)

lemma handleLogin_absent:
  assumes "uid u \<noteq> []"
    and "doc (defaulted DEFAULT_USERS_COLLECTION (usersCollectionPath opts)) (uid u) = Inr r"
    and "db opts r = None"
  shows "handleLogin now (Some u) opts =
           Inr (Redirect Welcome,
                (db opts)(r \<mapsto> [''uid'' \<mapsto> Str (uid u),
                                ''email'' \<mapsto> nullable (email u),
                                ''displayName'' \<mapsto> nullable (displayName u),
                                ''designation'' \<mapsto> Null,
                                ''isAdmin'' \<mapsto> Bool False,
                                ''onboardingStatus'' \<mapsto> Str ''pending_profile'',
                                ''createdAt'' \<mapsto> Timestamp now,
                                ''updatedAt'' \<mapsto> Timestamp now]))"
  using assms
  by (simp add: handleLogin_def getUserProfile_def getDoc_def bootstrapNewUser_def
      setDoc_def Let_def bootstrap_profile_stored)

lemma handleLogin_present:
  assumes "doc (defaulted DEFAULT_USERS_COLLECTION (usersCollectionPath opts)) (uid u) = Inr r"
    and "db opts r = Some profile"
  shows "\<exists>decision. handleLogin now (Some u) opts = Inr (decision, db opts)"
  using assms
  by (simp add: handleLogin_def Let_def getUserProfile_def getDoc_def)

lemma handleLogin_invalid_path:
  assumes "uid u \<noteq> []"
    and "doc (defaulted DEFAULT_USERS_COLLECTION (usersCollectionPath opts)) (uid u) = Inl e"
  shows "handleLogin now (Some u) opts = Inl e"
  using assms by (simp add: handleLogin_def Let_def getUserProfile_def)

lemma handleLogin_no_uid:
  "uid u = [] \<Longrightarrow>
     handleLogin now (Some u) opts = Inr (Error ''Missing Firebase user data.'', db opts)"
  by (simp add: handleLogin_def Let_def)

lemma handleLogin_no_user:
  "handleLogin now None opts = Inr (Error ''Missing Firebase user data.'', db opts)"
  by (simp add: handleLogin_def Let_def)

section \<open>The effect of one call on the store\<close>

lemma perform_Login_cases:
  "perform (Login now user path) fs = fs
   \<or> (\<exists>r d. fs r = None \<and> perform (Login now user path) fs = fs(r \<mapsto> d)
        \<and> d ''designation'' = Some Null
        \<and> d ''onboardingStatus'' = Some (Str ''pending_profile''))"
proof (cases user)
  case None
  then show ?thesis by (simp add: handleLogin_no_user)
next
  case (Some u)
  let ?opts = "\<lparr>db = fs, usersCollectionPath = path\<rparr>"
  let ?p = "[''uid'' \<mapsto> Str (uid u),
             ''email'' \<mapsto> nullable (email u),
             ''displayName'' \<mapsto> nullable (displayName u),
             ''designation'' \<mapsto> Null,
             ''isAdmin'' \<mapsto> Bool False,
             ''onboardingStatus'' \<mapsto> Str ''pending_profile'',
             ''createdAt'' \<mapsto> Timestamp now,
             ''updatedAt'' \<mapsto> Timestamp now]"
  show ?thesis
  proof (cases "uid u = []")
    case True
    then show ?thesis using Some by (simp add: handleLogin_no_uid)
  next
    case nonempty: False
    show ?thesis
    proof (cases "doc (defaulted DEFAULT_USERS_COLLECTION path) (uid u)")
      case (Inl e)
      then show ?thesis
        using Some nonempty handleLogin_invalid_path [of u ?opts e now] by simp
    next
      case (Inr r)
      show ?thesis
      proof (cases "fs r")
        case None
        then have "perform (Login now user path) fs = fs(r \<mapsto> ?p)"
          using Some nonempty Inr handleLogin_absent [of u ?opts r now] by simp
        with None have "fs r = None \<and> perform (Login now user path) fs = fs(r \<mapsto> ?p)
            \<and> ?p ''designation'' = Some Null
            \<and> ?p ''onboardingStatus'' = Some (Str ''pending_profile'')"
          by simp
        then show ?thesis
          by (intro disjI2 exI [of _ r] exI [of _ ?p])
      next
        case (Some profile)
        then obtain decision where "handleLogin now (Some u) ?opts = Inr (decision, fs)"
          using Inr handleLogin_present [of ?opts u r profile now] by auto
        then show ?thesis
          using \<open>user = Some u\<close> by simp
      qed
    qed
  qed
qed

lemma perform_Complete_invalid:
  "doc path userId = Inl e \<Longrightarrow>
     perform (Complete now path userId designation additionalData) fs = fs"
  by (simp add: completeWelcomeStep_def)

lemma perform_Complete_missing:
  "doc path userId = Inr r \<Longrightarrow> fs r = None \<Longrightarrow>
     perform (Complete now path userId designation additionalData) fs = fs"
  by (simp add: completeWelcomeStep_def updateDoc_missing)

lemma perform_Complete_existing:
  "doc path userId = Inr r \<Longrightarrow> fs r = Some d \<Longrightarrow>
     perform (Complete now path userId designation additionalData) fs =
       fs(r \<mapsto>
            d ++ resolveFields now
                   ([''designation'' \<mapsto> Str designation,
                     ''onboardingStatus'' \<mapsto> Str ''pending_admin_approval'',
                     ''updatedAt'' \<mapsto> ServerTimestamp]
                    ++ defaulted Map.empty additionalData))"
  by (simp add: completeWelcomeStep_existing)

lemma perform_Approve_invalid:
  "doc path userId = Inl e \<Longrightarrow> perform (Approve now path userId) fs = fs"
  by (simp add: approveUser_def)

lemma perform_Approve_missing:
  "doc path userId = Inr r \<Longrightarrow> fs r = None \<Longrightarrow> perform (Approve now path userId) fs = fs"
  by (simp add: approveUser_def updateDoc_missing)

lemma perform_Approve_existing:
  "doc path userId = Inr r \<Longrightarrow> fs r = Some d \<Longrightarrow>
     perform (Approve now path userId) fs =
       fs(r \<mapsto>
            d ++ resolveFields now
                   [''onboardingStatus'' \<mapsto> Str ''active'',
                    ''updatedAt'' \<mapsto> ServerTimestamp])"
  by (simp add: approveUser_existing)

text \<open>What one well-typed call does to the status of a document that exists.\<close>

lemma perform_status_existing:
  assumes "wellTyped op" and "fs r = Some d"
  shows "\<exists>d'. perform op fs r = Some d'
           \<and> d' ''onboardingStatus'' =
               (if completesOn op r then Some (Str ''pending_admin_approval'')
                else if approvesOn op r then Some (Str ''active'')
                else d ''onboardingStatus'')"
proof (cases op)
  case (Login now user path)
  then show ?thesis
    using perform_Login_cases [of now user path fs] assms(2) by auto
next
  case (Complete now path userId designation additionalData)
  show ?thesis
  proof (cases "doc path userId")
    case (Inl e)
    then show ?thesis
      using Complete assms(2)
      by (simp del: perform.simps add: perform_Complete_invalid)
  next
    case (Inr r0)
    show ?thesis
    proof (cases "fs r0")
      case None
      then show ?thesis
        using Complete Inr assms(2)
        by (auto simp del: perform.simps simp: perform_Complete_missing)
    next
      case (Some d0)
      then show ?thesis
        using Complete Inr assms
        by (auto simp del: perform.simps
            simp: perform_Complete_existing map_add_def additionalDataTyped_def
              omitsProtectedKeys_def)
    qed
  qed
next
  case (Approve now path userId)
  show ?thesis
  proof (cases "doc path userId")
    case (Inl e)
    then show ?thesis
      using Approve assms(2)
      by (simp del: perform.simps add: perform_Approve_invalid)
  next
    case (Inr r0)
    show ?thesis
    proof (cases "fs r0")
      case None
      then show ?thesis
        using Approve Inr assms(2)
        by (auto simp del: perform.simps simp: perform_Approve_missing)
    next
      case (Some d0)
      then show ?thesis
        using Approve Inr assms
        by (auto simp del: perform.simps simp: perform_Approve_existing map_add_def)
    qed
  qed
qed

text \<open>Only a login creates a document, and it creates it in \<open>pending_profile\<close>.\<close>

lemma perform_status_created:
  assumes "fs r = None" and "perform op fs r = Some d'"
  shows "d' ''onboardingStatus'' = Some (Str ''pending_profile'')"
proof (cases op)
  case (Login now user path)
  then show ?thesis
    using perform_Login_cases [of now user path fs] assms
    by (auto split: if_splits)
next
  case (Complete now path userId designation additionalData)
  show ?thesis
  proof (cases "doc path userId")
    case (Inl e)
    then show ?thesis
      using Complete assms by (simp del: perform.simps add: perform_Complete_invalid)
  next
    case (Inr r0)
    show ?thesis
    proof (cases "fs r0")
      case None
      then show ?thesis
        using Complete Inr assms by (simp del: perform.simps add: perform_Complete_missing)
    next
      case (Some d0)
      then show ?thesis
        using Complete Inr assms
        by (auto simp del: perform.simps simp: perform_Complete_existing split: if_splits)
    qed
  qed
next
  case (Approve now path userId)
  show ?thesis
  proof (cases "doc path userId")
    case (Inl e)
    then show ?thesis
      using Approve assms by (simp del: perform.simps add: perform_Approve_invalid)
  next
    case (Inr r0)
    show ?thesis
    proof (cases "fs r0")
      case None
      then show ?thesis
        using Approve Inr assms by (simp del: perform.simps add: perform_Approve_missing)
    next
      case (Some d0)
      then show ?thesis
        using Approve Inr assms
        by (auto simp del: perform.simps simp: perform_Approve_existing split: if_splits)
    qed
  qed
qed

lemma statusRank_simps [simp]:
  "statusRank (Some (Str ''pending_profile'')) = Some 0"
  "statusRank (Some (Str ''pending_admin_approval'')) = Some 1"
  "statusRank (Some (Str ''active'')) = Some 2"
  by (simp_all add: statusRank_def)

lemma statusRank_le_2: "statusRank st = Some a \<Longrightarrow> a \<le> 2"
  by (auto simp: statusRank_def split: if_splits)

text \<open>Every document of a reachable store carries one of the three status values.\<close>

lemma reachable_status_valid:
  assumes "reachable fs" and "fs r = Some d"
  shows "\<exists>a. statusRank (d ''onboardingStatus'') = Some a"
  using assms
proof (induction arbitrary: r d rule: reachable.induct)
  case init
  then show ?case by simp
next
  case (step fs op)
  show ?case
  proof (cases "fs r")
    case None
    then show ?thesis
      using perform_status_created [of fs r op d] step.prems by simp
  next
    case (Some d0)
    then obtain a where "statusRank (d0 ''onboardingStatus'') = Some a"
      using step.IH by blast
    then show ?thesis
      using perform_status_existing [of op fs r d0] step.hyps(2) step.prems Some
      by (auto split: if_splits)
  qed
qed

lemma reachable_afterLogin: "reachable afterLogin"
  unfolding afterLogin_def
  by (intro reachable.intros) simp_all

lemma reachable_afterWelcome: "reachable afterWelcome"
  unfolding afterWelcome_def
  by (intro reachable.step reachable_afterLogin)
    (simp add: additionalDataTyped_def omitsProtectedKeys_def defaulted_def)

lemma reachable_afterApproval: "reachable afterApproval"
  unfolding afterApproval_def
  by (intro reachable.step reachable_afterWelcome) simp
section \<open>Handling a login\<close>

text \<open>
  C8. When the user is missing or its uid is empty, \<^verbatim>\<open>handleLogin\<close> returns the error
  decision "Missing Firebase user data." as an ordinary value (it is not rejected), and
  the store it leaves is the store it was given.
\<close>

theorem handleLogin_missing_uid:
  assumes "user = None \<or> (\<exists>u. user = Some u \<and> uid u = [])"
  shows "handleLogin now user opts = Inr (Error ''Missing Firebase user data.'', db opts)"
  using assms by (auto simp: handleLogin_def Let_def)

theorem handleLogin_missing_uid_witness:
  "handleLogin 7 None \<lparr>db = Map.empty, usersCollectionPath = None\<rparr>
     = Inr (Error ''Missing Firebase user data.'', Map.empty)
   \<and> handleLogin 7 (Some \<lparr>uid = [], email = Some ''a@b.c'', displayName = None\<rparr>)
        \<lparr>db = Map.empty, usersCollectionPath = Some ''staff''\<rparr>
     = Inr (Error ''Missing Firebase user data.'', Map.empty)"
  using handleLogin_missing_uid [of None 7 "\<lparr>db = Map.empty, usersCollectionPath = None\<rparr>"]
    handleLogin_missing_uid [of "Some \<lparr>uid = [], email = Some ''a@b.c'', displayName = None\<rparr>" 7
      "\<lparr>db = Map.empty, usersCollectionPath = Some ''staff''\<rparr>"]
  by simp

text \<open>
  C6, as stated, fails: a non-empty uid need not name a document. With the uid \<^verbatim>\<open>a/b\<close>
  and the default collection the path \<^verbatim>\<open>users/a/b\<close> has three segments, and with an empty
  collection path there is no collection; in both cases no record exists in the (empty)
  store, \<^verbatim>\<open>doc\<close> rejects the path, and \<^verbatim>\<open>handleLogin\<close> is rejected with that error: it
  creates no record and returns no decision.
\<close>

theorem handleLogin_invalid_document_path:
  "uid \<lparr>uid = ''a/b'', email = None, displayName = None\<rparr> \<noteq> []
   \<and> handleLogin 1 (Some \<lparr>uid = ''a/b'', email = None, displayName = None\<rparr>)
        \<lparr>db = Map.empty, usersCollectionPath = None\<rparr>
     = Inl InvalidArgument
   \<and> uid exampleUser \<noteq> []
   \<and> handleLogin 1 (Some exampleUser) \<lparr>db = Map.empty, usersCollectionPath = Some []\<rparr>
     = Inl InvalidArgument"
  by (simp add: run_defs)

text \<open>
  C6, amended. For every user with a non-empty uid that, with the collection path, names
  a document (\<^verbatim>\<open>doc\<close> accepts the two) and for which no record exists in the store,
  \<^verbatim>\<open>handleLogin\<close> returns the redirect to the welcome page, and the store it leaves is the
  given store with exactly one document added, at the user's reference: uid, email and
  display name copied from the identity, designation null, \<open>isAdmin\<close> false, status
  \<open>pending_profile\<close>, and both timestamps set to the time of the write.
\<close>

theorem handleLogin_creates:
  assumes "uid u \<noteq> []"
    and "doc (defaulted DEFAULT_USERS_COLLECTION (usersCollectionPath opts)) (uid u) = Inr r"
    and "db opts r = None"
  shows "handleLogin now (Some u) opts =
           Inr (Redirect Welcome,
                (db opts)(r \<mapsto> [''uid'' \<mapsto> Str (uid u),
                                ''email'' \<mapsto> nullable (email u),
                                ''displayName'' \<mapsto> nullable (displayName u),
                                ''designation'' \<mapsto> Null,
                                ''isAdmin'' \<mapsto> Bool False,
                                ''onboardingStatus'' \<mapsto> Str ''pending_profile'',
                                ''createdAt'' \<mapsto> Timestamp now,
                                ''updatedAt'' \<mapsto> Timestamp now]))"
  using assms
  by (simp add: handleLogin_def getUserProfile_def getDoc_def bootstrapNewUser_def
      setDoc_def Let_def bootstrap_profile_stored)

theorem handleLogin_creates_witness:
  "uid exampleUser \<noteq> []
   \<and> doc (defaulted DEFAULT_USERS_COLLECTION None) (uid exampleUser) = Inr [''users'', ''u1'']
   \<and> Map.empty [''users'', ''u1''] = (None :: document option)
   \<and> handleLogin 1 (Some exampleUser) \<lparr>db = Map.empty, usersCollectionPath = None\<rparr>
     = Inr (Redirect Welcome,
        [[''users'', ''u1''] \<mapsto>
           [''uid'' \<mapsto> Str ''u1'',
            ''email'' \<mapsto> Str ''ada@example.org'',
            ''displayName'' \<mapsto> Null,
            ''designation'' \<mapsto> Null,
            ''isAdmin'' \<mapsto> Bool False,
            ''onboardingStatus'' \<mapsto> Str ''pending_profile'',
            ''createdAt'' \<mapsto> Timestamp 1,
            ''updatedAt'' \<mapsto> Timestamp 1]])"
  using handleLogin_creates [of exampleUser
      "\<lparr>db = Map.empty, usersCollectionPath = None\<rparr>" "[''users'', ''u1'']" 1]
  by (simp add: exampleUser_def defaulted_def DEFAULT_USERS_COLLECTION_def nullable_def
      doc_users_u1)

text \<open>
  C5. For a user with a non-empty uid whose stored document has \<open>isAdmin = true\<close>,
  \<^verbatim>\<open>handleLogin\<close> returns the redirect to the admin console whatever the document's
  \<open>onboardingStatus\<close> is (a value outside the enumeration and a missing field included),
  and leaves the store unchanged.
\<close>

theorem handleLogin_admin:
  assumes "uid u \<noteq> []"
    and "doc (defaulted DEFAULT_USERS_COLLECTION (usersCollectionPath opts)) (uid u) = Inr r"
    and "db opts r = Some profile"
    and "profile ''isAdmin'' = Some (Bool True)"
  shows "handleLogin now (Some u) opts = Inr (Redirect Admin, db opts)"
  using assms by (simp add: handleLogin_def getUserProfile_def getDoc_def Let_def)

theorem handleLogin_admin_witness:
  "doc (defaulted DEFAULT_USERS_COLLECTION None) (uid secondUser) = Inr [''users'', ''u2'']
   \<and> handleLogin 5 (Some secondUser)
     \<lparr>db = storedProfile True ''suspended'', usersCollectionPath = None\<rparr>
     = Inr (Redirect Admin, storedProfile True ''suspended'')
   \<and> handleLogin 5 (Some secondUser)
        \<lparr>db = storedProfile True ''pending_admin_approval'', usersCollectionPath = Some ''users''\<rparr>
     = Inr (Redirect Admin, storedProfile True ''pending_admin_approval'')"
  using handleLogin_admin [of secondUser
      "\<lparr>db = storedProfile True ''suspended'', usersCollectionPath = None\<rparr>"
      "[''users'', ''u2'']" _ 5]
    handleLogin_admin [of secondUser
      "\<lparr>db = storedProfile True ''pending_admin_approval'', usersCollectionPath = Some ''users''\<rparr>"
      "[''users'', ''u2'']" _ 5]
  by (simp add: secondUser_def storedProfile_def defaulted_def DEFAULT_USERS_COLLECTION_def
      doc_users_u2)

text \<open>
  C7. For a user with a non-empty uid whose stored document has \<open>isAdmin = false\<close>,
  \<^verbatim>\<open>handleLogin\<close> branches on the document's \<open>onboardingStatus\<close>: \<open>pending_profile\<close> gives
  the redirect to the welcome page, \<open>pending_admin_approval\<close> the error "Awaiting admin
  approval.", \<open>active\<close> the redirect to the dashboard, and any other value the error
  "Invalid onboarding status."; in all four cases the store is left unchanged.
\<close>

theorem handleLogin_status_branches:
  assumes "uid u \<noteq> []"
    and "doc (defaulted DEFAULT_USERS_COLLECTION (usersCollectionPath opts)) (uid u) = Inr r"
    and "db opts r = Some profile"
    and "profile ''isAdmin'' = Some (Bool False)"
  shows "(profile ''onboardingStatus'' = Some (Str ''pending_profile'') \<longrightarrow>
            handleLogin now (Some u) opts = Inr (Redirect Welcome, db opts))
       \<and> (profile ''onboardingStatus'' = Some (Str ''pending_admin_approval'') \<longrightarrow>
            handleLogin now (Some u) opts = Inr (Error ''Awaiting admin approval.'', db opts))
       \<and> (profile ''onboardingStatus'' = Some (Str ''active'') \<longrightarrow>
            handleLogin now (Some u) opts = Inr (Redirect Dashboard, db opts))
       \<and> (profile ''onboardingStatus'' \<noteq> Some (Str ''pending_profile'')
            \<and> profile ''onboardingStatus'' \<noteq> Some (Str ''pending_admin_approval'')
            \<and> profile ''onboardingStatus'' \<noteq> Some (Str ''active'') \<longrightarrow>
            handleLogin now (Some u) opts = Inr (Error ''Invalid onboarding status.'', db opts))"
  using assms by (simp add: handleLogin_def getUserProfile_def getDoc_def Let_def)

theorem handleLogin_status_branches_witness:
  "doc (defaulted DEFAULT_USERS_COLLECTION None) (uid secondUser) = Inr [''users'', ''u2'']
   \<and> handleLogin 5 (Some secondUser)
     \<lparr>db = storedProfile False ''pending_profile'', usersCollectionPath = None\<rparr>
     = Inr (Redirect Welcome, storedProfile False ''pending_profile'')
   \<and> handleLogin 5 (Some secondUser)
       \<lparr>db = storedProfile False ''pending_admin_approval'', usersCollectionPath = None\<rparr>
     = Inr (Error ''Awaiting admin approval.'', storedProfile False ''pending_admin_approval'')
   \<and> handleLogin 5 (Some secondUser)
       \<lparr>db = storedProfile False ''active'', usersCollectionPath = None\<rparr>
     = Inr (Redirect Dashboard, storedProfile False ''active'')
   \<and> handleLogin 5 (Some secondUser)
       \<lparr>db = storedProfile False ''suspended'', usersCollectionPath = None\<rparr>
     = Inr (Error ''Invalid onboarding status.'', storedProfile False ''suspended'')"
  using handleLogin_status_branches [of secondUser
      "\<lparr>db = storedProfile False ''pending_profile'', usersCollectionPath = None\<rparr>"
      "[''users'', ''u2'']" _ 5]
    handleLogin_status_branches [of secondUser
      "\<lparr>db = storedProfile False ''pending_admin_approval'', usersCollectionPath = None\<rparr>"
      "[''users'', ''u2'']" _ 5]
    handleLogin_status_branches [of secondUser
      "\<lparr>db = storedProfile False ''active'', usersCollectionPath = None\<rparr>"
      "[''users'', ''u2'']" _ 5]
    handleLogin_status_branches [of secondUser
      "\<lparr>db = storedProfile False ''suspended'', usersCollectionPath = None\<rparr>"
      "[''users'', ''u2'']" _ 5]
  by (simp add: secondUser_def storedProfile_def defaulted_def DEFAULT_USERS_COLLECTION_def
      doc_users_u2)

section \<open>Approving a user\<close>

text \<open>
  C9. For every existing record, \<^verbatim>\<open>approveUser\<close> succeeds and replaces the record by one
  whose \<open>onboardingStatus\<close> is \<open>active\<close> and whose \<open>updatedAt\<close> is the time of the write;
  every other field of the record (uid, email, displayName, designation, isAdmin,
  createdAt among them) is as it was, and no other document of the store is touched.
\<close>

theorem approveUser_frame:
  assumes "doc path userId = Inr r" and "fs r = Some d"
  shows "\<exists>d'. approveUser now fs path userId = Inr (fs(r \<mapsto> d'))
            \<and> d' ''onboardingStatus'' = Some (Str ''active'')
            \<and> d' ''updatedAt'' = Some (Timestamp now)
            \<and> (\<forall>k. k \<noteq> ''onboardingStatus'' \<and> k \<noteq> ''updatedAt'' \<longrightarrow> d' k = d k)"
proof (intro exI conjI)
  show "approveUser now fs path userId =
          Inr (fs(r \<mapsto>
                 d ++ resolveFields now
                        [''onboardingStatus'' \<mapsto> Str ''active'',
                         ''updatedAt'' \<mapsto> ServerTimestamp]))"
    using assms by (rule approveUser_existing)
qed (simp_all add: map_add_def)

theorem approveUser_frame_witness:
  "doc ''users'' ''u1'' = Inr [''users'', ''u1'']
   \<and> afterWelcome [''users'', ''u1''] \<noteq> None
   \<and> fieldAfter (approveUser 3 afterWelcome ''users'' ''u1'') [''users'', ''u1'']
        ''onboardingStatus'' = Some (Str ''active'')
   \<and> fieldAfter (approveUser 3 afterWelcome ''users'' ''u1'') [''users'', ''u1'']
        ''updatedAt'' = Some (Timestamp 3)
   \<and> fieldAfter (approveUser 3 afterWelcome ''users'' ''u1'') [''users'', ''u1'']
        ''designation'' = Some (Str ''engineer'')
   \<and> fieldAfter (approveUser 3 afterWelcome ''users'' ''u1'') [''users'', ''u1'']
        ''createdAt'' = Some (Timestamp 1)"
proof -
  let ?r = "[''users'', ''u1'']"
  let ?d = "the (afterWelcome ?r)"
  have ex: "afterWelcome ?r \<noteq> None"
    by (simp add: run_defs)
  then have d: "afterWelcome ?r = Some ?d"
    by simp
  have before: "?d ''designation'' = Some (Str ''engineer'')"
    "?d ''createdAt'' = Some (Timestamp 1)"
    by (simp_all add: run_defs)
  obtain d' where res: "approveUser 3 afterWelcome ''users'' ''u1''
                          = Inr (afterWelcome(?r \<mapsto> d'))"
    and st: "d' ''onboardingStatus'' = Some (Str ''active'')"
    and up: "d' ''updatedAt'' = Some (Timestamp 3)"
    and frame: "\<forall>k. k \<noteq> ''onboardingStatus'' \<and> k \<noteq> ''updatedAt'' \<longrightarrow> d' k = ?d k"
    using approveUser_frame [of "''users''" "''u1''" ?r afterWelcome ?d 3] d doc_users_u1
    by blast
  have "d' ''designation'' = Some (Str ''engineer'')" "d' ''createdAt'' = Some (Timestamp 1)"
    using frame before by simp_all
  with ex res st up doc_users_u1 show ?thesis
    by (simp add: fieldAfter_def fieldOf_def)
qed

section \<open>Completing the welcome step\<close>

text \<open>
  C10. When the record exists and \<^verbatim>\<open>additionalData\<close> itself has a \<open>designation\<close> key,
  \<^verbatim>\<open>completeWelcomeStep\<close> succeeds and the designation it stores is the one of
  \<^verbatim>\<open>additionalData\<close> (as the store resolves it: a string or null is stored as it is), not
  the \<open>designation\<close> argument.
\<close>

theorem completeWelcomeStep_additionalData_designation:
  assumes "doc path userId = Inr r"
    and "fs r \<noteq> None"
    and "additionalData = Some ad"
    and "ad ''designation'' = Some v"
  shows "fieldAfter (completeWelcomeStep now fs path userId designation additionalData)
           r ''designation'' = Some (resolveValue now v)"
  using assms
  by (auto simp: completeWelcomeStep_existing fieldAfter_def fieldOf_def map_add_def
      defaulted_def)

theorem completeWelcomeStep_additionalData_designation_witness:
  "doc ''users'' ''u1'' = Inr [''users'', ''u1'']
   \<and> afterLogin [''users'', ''u1''] \<noteq> None
   \<and> fieldAfter (completeWelcomeStep 2 afterLogin ''users'' ''u1'' ''engineer''
                   (Some [''designation'' \<mapsto> Str ''manager'', ''email'' \<mapsto> Null]))
        [''users'', ''u1''] ''designation'' = Some (Str ''manager'')"
  using completeWelcomeStep_additionalData_designation [of "''users''" "''u1''"
      "[''users'', ''u1'']" afterLogin
      "Some [''designation'' \<mapsto> Str ''manager'', ''email'' \<mapsto> Null]"
      "[''designation'' \<mapsto> Str ''manager'', ''email'' \<mapsto> Null]" "Str ''manager''" 2
      "''engineer''"]
  by (simp add: run_defs)


text \<open>
  The three protected keys are kept out of \<^verbatim>\<open>additionalData\<close> by its declared type
  alone. An object that has one of them all the same (a caller outside the type checker)
  wins over the status the function writes, since it is spread last.
\<close>

lemma completeWelcomeStep_untyped_status:
  "fieldAfter (completeWelcomeStep 2 afterLogin ''users'' ''u1'' ''engineer''
                 (Some [''onboardingStatus'' \<mapsto> Str ''active'', ''isAdmin'' \<mapsto> Bool True]))
     [''users'', ''u1''] ''onboardingStatus'' = Some (Str ''active'')
   \<and> fieldAfter (completeWelcomeStep 2 afterLogin ''users'' ''u1'' ''engineer''
                 (Some [''onboardingStatus'' \<mapsto> Str ''active'', ''isAdmin'' \<mapsto> Bool True]))
     [''users'', ''u1''] ''isAdmin'' = Some (Bool True)"
  by (simp add: run_defs)






section \<open>The lifecycle of a record\<close>

text \<open>
  C2, as stated, fails: \<^verbatim>\<open>completeWelcomeStep\<close> writes \<open>pending_admin_approval\<close> without
  reading the record, so on a record that was approved it moves the status from \<open>active\<close>
  back to \<open>pending_admin_approval\<close>. The store is the one reached by a first login, the
  welcome step and the approval.
\<close>

theorem status_regresses_after_approval:
  "reachable afterApproval
   \<and> wellTyped (Complete 4 ''users'' ''u1'' ''engineer'' None)
   \<and> statusRank (fieldOf afterApproval [''users'', ''u1''] ''onboardingStatus'') = Some 2
   \<and> statusRank (fieldOf (perform (Complete 4 ''users'' ''u1'' ''engineer'' None) afterApproval)
                   [''users'', ''u1''] ''onboardingStatus'') = Some 1"
  using reachable_afterApproval by (simp add: run_defs)

text \<open>
  C2, amended. In every store reachable by well-typed calls, every record has one of the
  three status values, and a well-typed call never moves the status of an existing record
  backward, with one exception: \<^verbatim>\<open>completeWelcomeStep\<close> applied to a record that is
  \<open>active\<close> sets it to \<open>pending_admin_approval\<close>.
\<close>

theorem status_forward_except_reset:
  assumes "reachable fs" and "wellTyped op" and "fs r \<noteq> None"
  shows "\<exists>a b. statusRank (fieldOf fs r ''onboardingStatus'') = Some a
            \<and> statusRank (fieldOf (perform op fs) r ''onboardingStatus'') = Some b
            \<and> (if completesOn op r \<and> a = 2 then b = 1 else a \<le> b)"
proof -
  from assms(3) obtain d where d: "fs r = Some d" by blast
  then obtain a where a: "statusRank (d ''onboardingStatus'') = Some a"
    using reachable_status_valid [OF assms(1)] by blast
  have a2: "a \<le> 2" using a by (rule statusRank_le_2)
  obtain d' where d': "perform op fs r = Some d'"
    and eff: "d' ''onboardingStatus'' =
               (if completesOn op r then Some (Str ''pending_admin_approval'')
                else if approvesOn op r then Some (Str ''active'')
                else d ''onboardingStatus'')"
    using perform_status_existing [of op fs r d] assms(2) d by blast
  have "\<exists>b. statusRank (d' ''onboardingStatus'') = Some b
          \<and> (if completesOn op r \<and> a = 2 then b = 1 else a \<le> b)"
    using eff a a2 by (auto split: if_splits)
  then show ?thesis
    using d d' a by (simp add: fieldOf_def)
qed

theorem status_forward_except_reset_witness:
  "reachable afterWelcome
   \<and> wellTyped (Approve 3 ''users'' ''u1'')
   \<and> afterWelcome [''users'', ''u1''] \<noteq> None
   \<and> statusRank (fieldOf afterWelcome [''users'', ''u1''] ''onboardingStatus'') = Some 1
   \<and> statusRank (fieldOf (perform (Approve 3 ''users'' ''u1'') afterWelcome)
                   [''users'', ''u1''] ''onboardingStatus'') = Some 2"
proof -
  have h2: "wellTyped (Approve 3 ''users'' ''u1'')" by simp
  have h3: "afterWelcome [''users'', ''u1''] \<noteq> None" by (simp add: run_defs)
  have before: "fieldOf afterWelcome [''users'', ''u1''] ''onboardingStatus''
                  = Some (Str ''pending_admin_approval'')"
    by (simp add: run_defs)
  have after: "fieldOf (perform (Approve 3 ''users'' ''u1'') afterWelcome)
                 [''users'', ''u1''] ''onboardingStatus'' = Some (Str ''active'')"
    by (simp add: run_defs)
  from status_forward_except_reset [of afterWelcome "Approve 3 ''users'' ''u1''"
      "[''users'', ''u1'']"] reachable_afterWelcome h2 h3 before after
  show ?thesis by simp
qed

text \<open>
  C4, as stated, fails: \<^verbatim>\<open>approveUser\<close> is unconditional, so approving a record that is
  still in \<open>pending_profile\<close> gives a reachable record that is \<open>active\<close> with a null
  designation.
\<close>

theorem approval_of_fresh_profile:
  "reachable (perform (Approve 2 ''users'' ''u1'') afterLogin)
   \<and> fieldOf (perform (Approve 2 ''users'' ''u1'') afterLogin) [''users'', ''u1'']
        ''designation'' = Some Null
   \<and> fieldOf (perform (Approve 2 ''users'' ''u1'') afterLogin) [''users'', ''u1'']
        ''onboardingStatus'' = Some (Str ''active'')"
proof -
  have "reachable (perform (Approve 2 ''users'' ''u1'') afterLogin)"
    by (intro reachable.step reachable_afterLogin) simp
  then show ?thesis
    by (simp add: run_defs)
qed

text \<open>
  C4, amended. The invariant "designation is null only while the status is
  \<open>pending_profile\<close>" holds of the record a login creates and is preserved, for every
  record of the store, by every \<^verbatim>\<open>handleLogin\<close>, by every \<^verbatim>\<open>completeWelcomeStep\<close> whose
  \<^verbatim>\<open>additionalData\<close> does not itself carry \<open>designation: null\<close>, and by every
  \<^verbatim>\<open>approveUser\<close> of a record whose designation is not null.
\<close>

theorem designation_invariant_preserved:
  assumes "storeInv fs" and "keepsDesignation op fs"
  shows "storeInv (perform op fs)"
proof (cases op)
  case (Login now user path)
  then show ?thesis
    using perform_Login_cases [of now user path fs] assms(1)
    by (auto simp del: perform.simps simp: storeInv_def designationInv_def split: if_splits)
next
  case (Complete now path userId designation additionalData)
  show ?thesis
  proof (cases "doc path userId")
    case (Inl e)
    then show ?thesis
      using Complete assms(1) by (simp del: perform.simps add: perform_Complete_invalid)
  next
    case (Inr r0)
    show ?thesis
    proof (cases "fs r0")
      case None
      then show ?thesis
        using Complete Inr assms(1)
        by (simp del: perform.simps add: perform_Complete_missing)
    next
      case (Some d0)
      then show ?thesis
        using Complete Inr assms
        by (auto simp del: perform.simps
            simp: perform_Complete_existing storeInv_def designationInv_def map_add_def
            split: if_splits option.splits)
    qed
  qed
next
  case (Approve now path userId)
  show ?thesis
  proof (cases "doc path userId")
    case (Inl e)
    then show ?thesis
      using Approve assms(1) by (simp del: perform.simps add: perform_Approve_invalid)
  next
    case (Inr r0)
    show ?thesis
    proof (cases "fs r0")
      case None
      then show ?thesis
        using Approve Inr assms(1)
        by (simp del: perform.simps add: perform_Approve_missing)
    next
      case (Some d0)
      then show ?thesis
        using Approve Inr assms
        by (auto simp del: perform.simps
            simp: perform_Approve_existing storeInv_def designationInv_def map_add_def
              fieldOf_def
            split: if_splits)
    qed
  qed
qed

theorem designation_invariant_preserved_witness:
  "storeInv Map.empty
   \<and> keepsDesignation (Login 1 (Some exampleUser) None) Map.empty
   \<and> storeInv afterLogin
   \<and> keepsDesignation (Complete 2 ''users'' ''u1'' ''engineer'' None) afterLogin
   \<and> storeInv afterWelcome
   \<and> keepsDesignation (Approve 3 ''users'' ''u1'') afterWelcome
   \<and> storeInv afterApproval"
proof -
  have s0: "storeInv Map.empty" by (simp add: storeInv_def)
  have k0: "keepsDesignation (Login 1 (Some exampleUser) None) Map.empty" by simp
  have s1: "storeInv afterLogin"
    unfolding afterLogin_def using s0 k0 by (rule designation_invariant_preserved)
  have k1: "keepsDesignation (Complete 2 ''users'' ''u1'' ''engineer'' None) afterLogin"
    by (simp add: defaulted_def)
  have s2: "storeInv afterWelcome"
    unfolding afterWelcome_def using s1 k1 by (rule designation_invariant_preserved)
  have k2: "keepsDesignation (Approve 3 ''users'' ''u1'') afterWelcome"
    by (simp add: run_defs)
  have s3: "storeInv afterApproval"
    unfolding afterApproval_def using s2 k2 by (rule designation_invariant_preserved)
  from s0 k0 s1 k1 s2 k2 s3 show ?thesis by blast
qed

end
